theory Spec2Isabelle
  imports Complex_Main "HOL-Library.AList"
begin

section \<open>Data model of \<^verbatim>\<open>frontend/src/App.tsx\<close>\<close>

text \<open>
  Line numbers and counters are JavaScript numbers holding integers; they are modelled as
  \<open>int\<close> and \<open>nat\<close>. Times in seconds are modelled as \<open>real\<close>. A value that may be
  \<^verbatim>\<open>undefined\<close> (an array read out of range) is an \<open>option\<close>, with \<open>None\<close> for
  \<^verbatim>\<open>undefined\<close>.
\<close>

text \<open>The message pushed by the analyzer over the channel (the spec's CodeEvent).\<close>

record CodeEvent =
  type :: string
  startLine :: int
  endLine :: int
  isError :: bool
  message :: string

text \<open>\<^verbatim>\<open>note: string | string[]\<close>; a pitch read from the scale may be \<^verbatim>\<open>undefined\<close>.\<close>

datatype note_t = Single "string option" | Chord "string option list"

text \<open>
  \<^verbatim>\<open>MusicalEvent & { time: number }\<close>: the entries of \<^verbatim>\<open>scheduledEvents\<close>. The field
  \<^verbatim>\<open>note\<close> is written \<open>note'\<close>, since \<open>note\<close> is a keyword of Isabelle.
\<close>

record ScheduledEvent = CodeEvent +
  time :: real
  note' :: note_t
  duration :: string

text \<open>An entry of \<^verbatim>\<open>musicPalettes\<close>: the scale and the name of the Tone synth class.\<close>

record palette =
  scale :: "string list"
  synth_class :: string

definition musicPalettes :: "(string \<times> palette) list" where
  "musicPalettes =
     [(''Go-Concurrent'',
         \<lparr>scale = [''C3'', ''D#3'', ''G3'', ''G#3'', ''C4'', ''D#4'', ''G4'', ''G#4''],
          synth_class = ''FMSynth''\<rparr>),
      (''Go-Systems'',
         \<lparr>scale = [''A2'', ''B2'', ''C3'', ''E3'', ''A3'', ''B3'', ''C4'', ''E4''],
          synth_class = ''AMSynth''\<rparr>),
      (''JS-Async'',
         \<lparr>scale = [''G4'', ''A4'', ''C5'', ''D5'', ''F5'', ''G5'', ''A5'', ''C6''],
          synth_class = ''PluckSynth''\<rparr>),
      (''JS-DOM'',
         \<lparr>scale = [''C4'', ''E4'', ''G4'', ''A4'', ''B4'', ''C5'', ''E5'', ''G5''],
          synth_class = ''PolySynth''\<rparr>),
      (''JS-Functional'',
         \<lparr>scale = [''D3'', ''F3'', ''A3'', ''C4'', ''E4'', ''F4'', ''A4'', ''C5''],
          synth_class = ''MembraneSynth''\<rparr>),
      (''Algorithmic-Logic'',
         \<lparr>scale = [''C4'', ''D4'', ''E4'', ''F#4'', ''G#4'', ''A#4'', ''C5'', ''D5''],
          synth_class = ''PolySynth''\<rparr>),
      (''default'',
         \<lparr>scale = [''C4'', ''D4'', ''E4'', ''F4'', ''G4'', ''A4'', ''B4'', ''C5''],
          synth_class = ''PolySynth''\<rparr>)]"

section \<open>JavaScript primitives used by the compile loop\<close>

text \<open>\<^verbatim>\<open>a % b\<close> on non-negative integers; \<open>None\<close> is \<^verbatim>\<open>NaN\<close> (\<^verbatim>\<open>b = 0\<close>).\<close>

definition js_rem :: "nat \<Rightarrow> nat \<Rightarrow> nat option" where
  "js_rem a b = (if b = 0 then None else Some (a mod b))"

text \<open>\<^verbatim>\<open>xs[i]\<close>; reading at \<^verbatim>\<open>NaN\<close> or out of range gives \<^verbatim>\<open>undefined\<close>.\<close>

definition js_index :: "'a list \<Rightarrow> nat option \<Rightarrow> 'a option" where
  "js_index xs i =
     (case i of None \<Rightarrow> None
      | Some k \<Rightarrow> if k < length xs then Some (xs ! k) else None)"

section \<open>The compile loop of \<^verbatim>\<open>ws.onclose\<close> (the Timeline Compiler)\<close>

text \<open>
  The three variables the \<^verbatim>\<open>forEach\<close> body updates. \<^verbatim>\<open>Tone.Time(d).toSeconds()\<close> belongs
  to the Tone.js library and is the parameter \<open>toSeconds\<close>.
\<close>

record compile_state =
  scheduledEvents :: "ScheduledEvent list"
  cumulativeTime :: real
  messageCounter :: nat

definition compile_step ::
  "(string \<Rightarrow> real) \<Rightarrow> string list \<Rightarrow> compile_state \<Rightarrow> CodeEvent \<Rightarrow> compile_state" where
  "compile_step toSeconds currentScale st event =
     (let (n, d) =
        (if isError event then
           (if type event = ''syntax_error'' then (Chord [Some ''C2'', Some ''C#2''], ''8n'')
            else if type event = ''logical_error'' then (Chord [Some ''E2'', Some ''F2''], ''16n'')
            else if type event = ''best_practice'' then (Chord [Some ''G2'', Some ''G#2''], ''16n'')
            else (Single (Some ''C2''), ''16n''))
         else
           (let noteIndex = nat \<bar>startLine event + int (messageCounter st)\<bar> in
            if type event = ''function_declaration'' \<or> type event = ''arrow_function'' then
              (Chord [js_index currentScale (js_rem noteIndex (length currentScale)),
                      js_index currentScale (js_rem (noteIndex + 3) (length currentScale))],
               ''4n'')
            else
              (Single (js_index currentScale (js_rem noteIndex (length currentScale))),
               ''16n'')));
        newScheduledEvent =
          \<lparr>type = type event, startLine = startLine event, endLine = endLine event,
           isError = isError event, message = message event,
           time = cumulativeTime st, note' = n, duration = d\<rparr>
      in \<lparr>scheduledEvents = scheduledEvents st @ [newScheduledEvent],
          cumulativeTime = cumulativeTime st + toSeconds d,
          messageCounter = (if \<not> isError event then messageCounter st + 1
                            else messageCounter st)\<rparr>)"

definition compile_loop ::
  "(string \<Rightarrow> real) \<Rightarrow> string list \<Rightarrow> CodeEvent list \<Rightarrow> compile_state" where
  "compile_loop toSeconds currentScale musicalEvents =
     foldl (compile_step toSeconds currentScale)
       \<lparr>scheduledEvents = [], cumulativeTime = 0, messageCounter = 0\<rparr> musicalEvents"


text \<open>
  An instance of the parameter \<open>toSeconds\<close> for evaluating the loop on concrete inputs:
  Tone.js at its default tempo of 120 beats per minute, where a quarter note lasts half a
  second.
\<close>

definition toSeconds_120bpm :: "string \<Rightarrow> real" where
  "toSeconds_120bpm d =
     (if d = ''4n'' then 1 / 2 else if d = ''8n'' then 1 / 4
      else if d = ''16n'' then 1 / 8 else 0)"

section \<open>State of the \<^verbatim>\<open>App\<close> component and of its collaborators\<close>

text \<open>
  \<^verbatim>\<open>NodeVisualProps\<close> and \<^verbatim>\<open>HighlightInfo\<close>; their fields carry a prefix where the name is
  already a field of \<open>CodeEvent\<close> or a constant of HOL.
\<close>

record NodeVisualProps =
  node_id :: string
  node_type :: string
  position :: "real \<times> real \<times> real"
  node_duration :: real
  node_isError :: bool

record HighlightInfo =
  hl_start :: int
  hl_end :: int
  hl_type :: string
  hl_isError :: bool

text \<open>The value of the \<^verbatim>\<open>summary\<close> state: \<^verbatim>\<open>{ title: string, messages: string[] }\<close>.\<close>

record summary_t =
  title :: string
  messages :: "string list"

text \<open>\<^verbatim>\<open>WebSocket.readyState\<close>, and the effect of \<^verbatim>\<open>WebSocket.close()\<close> on it.\<close>

datatype readyState = CONNECTING | OPEN | CLOSING | CLOSED

fun ws_close :: "readyState \<Rightarrow> readyState" where
  "ws_close CONNECTING = CLOSING"
| "ws_close OPEN = CLOSING"
| "ws_close CLOSING = CLOSING"
| "ws_close CLOSED = CLOSED"

text \<open>The Tone objects the component holds: the synth, the sequence and the transport.\<close>

record synth_t =
  synth_kind :: string
  synth_disposed :: bool

record sequence_t =
  seq_events :: "ScheduledEvent list"
  seq_loop :: bool
  seq_disposed :: bool

record transport_t =
  started :: bool
  timeline :: "ScheduledEvent list"

text \<open>
  A pending \<^verbatim>\<open>window.setTimeout\<close>: the closure of \<^verbatim>\<open>finalStop\<close> (the draft map and the
  summary it captured) and the delay in milliseconds.
\<close>

record timeout_t =
  cb_collectedErrors :: "(int \<times> string) list"
  cb_finalSummary :: summary_t
  delay_ms :: real

text \<open>
  The React state of \<^verbatim>\<open>App\<close>, its refs (\<open>ws\<close> is the ready state of \<^verbatim>\<open>ws.current\<close>,
  \<open>None\<close> for \<^verbatim>\<open>null\<close>), the Tone transport and the timers of the window. A JavaScript
  \<^verbatim>\<open>Map\<close> is an association list in insertion order.
\<close>

record app =
  code :: string
  isPlaying :: bool
  status :: string
  visualNodes :: "NodeVisualProps list"
  cameraEffect :: real
  activePalette :: string
  highlightedLines :: "HighlightInfo option"
  summary :: "summary_t option"
  persistentErrors :: "(int \<times> string) list"
  ws :: "readyState option"
  synth :: "synth_t option"
  sequence :: "sequence_t option"
  stopTimeoutRef :: "nat option"
  transport :: transport_t
  timeouts :: "nat \<rightharpoonup> timeout_t"
  timer_counter :: nat

text \<open>
  The variables of one \<^verbatim>\<open>handlePlay\<close> call that the handlers of its socket close over.
\<close>

record session =
  palette :: palette
  musicalEvents :: "CodeEvent list"
  errorMessages :: "string list"
  collectedErrors :: "(int \<times> string) list"

text \<open>The response of \<^verbatim>\<open>classifyCode\<close>.\<close>

record classification =
  genre :: string
  confidence :: real

section \<open>Collaborators: timers, transport, socket events\<close>

text \<open>
  \<^verbatim>\<open>window.setTimeout\<close> returns a fresh positive handle; \<^verbatim>\<open>clearTimeout\<close> removes the
  pending timer with that handle, if any.
\<close>

definition setTimeout :: "timeout_t \<Rightarrow> app \<Rightarrow> nat \<times> app" where
  "setTimeout cb s =
     (let h = timer_counter s + 1
      in (h, s\<lparr>timeouts := (timeouts s)(h \<mapsto> cb), timer_counter := h\<rparr>))"

definition clearTimeout :: "nat \<Rightarrow> app \<Rightarrow> app" where
  "clearTimeout h s = s\<lparr>timeouts := (timeouts s)(h := None)\<rparr>"

definition Transport_stop :: "app \<Rightarrow> app" where
  "Transport_stop s = s\<lparr>transport := (transport s)\<lparr>started := False\<rparr>\<rparr>"

definition Transport_cancel :: "app \<Rightarrow> app" where
  "Transport_cancel s = s\<lparr>transport := (transport s)\<lparr>timeline := []\<rparr>\<rparr>"

definition Transport_start :: "app \<Rightarrow> app" where
  "Transport_start s = s\<lparr>transport := (transport s)\<lparr>started := True\<rparr>\<rparr>"

text \<open>
  The browser sets the ready state of the socket before it fires \<^verbatim>\<open>open\<close> and
  \<^verbatim>\<open>close\<close>; the socket is the one in \<^verbatim>\<open>ws.current\<close>.
\<close>

definition socket_opened :: "app \<Rightarrow> app" where
  "socket_opened s = s\<lparr>ws := map_option (\<lambda>_. OPEN) (ws s)\<rparr>"

definition socket_closed :: "app \<Rightarrow> app" where
  "socket_closed s = s\<lparr>ws := map_option (\<lambda>_. CLOSED) (ws s)\<rparr>"

text \<open>Decimal rendering of a line number inside a template string.\<close>

fun string_of_nat :: "nat \<Rightarrow> string" where
  "string_of_nat n =
     (if n < 10 then [''0123456789'' ! n]
      else string_of_nat (n div 10) @ [''0123456789'' ! (n mod 10)])"

declare string_of_nat.simps [simp del]

definition string_of_int :: "int \<Rightarrow> string" where
  "string_of_int i =
     (if i < 0 then CHR ''-'' # string_of_nat (nat (- i)) else string_of_nat (nat i))"

text \<open>\<^verbatim>\<open>xs.slice(-n)\<close> for a positive \<open>n\<close>: the last \<open>n\<close> elements, or all of a shorter list.\<close>

definition slice_neg :: "nat \<Rightarrow> 'a list \<Rightarrow> 'a list" where
  "slice_neg n xs = drop (length xs - n) xs"


section \<open>The handlers of \<^verbatim>\<open>App\<close>\<close>

text \<open>
  Each handler runs to completion on the state it finds. A handler that closes over the
  variables of a \<^verbatim>\<open>handlePlay\<close> call takes them as a \<open>session\<close>.
\<close>

subsection \<open>\<^verbatim>\<open>stopMusic\<close>\<close>

definition stopMusic :: "summary_t option \<Rightarrow> app \<Rightarrow> app" where
  "stopMusic finalSummary s =
     (let s1 = (case stopTimeoutRef s of
                  None \<Rightarrow> s
                | Some h \<Rightarrow> if h \<noteq> 0 then clearTimeout h s else s);
          s2 = Transport_cancel (Transport_stop s1);
          s3 = s2\<lparr>sequence := map_option (\<lambda>q. q\<lparr>seq_disposed := True\<rparr>) (sequence s2)\<rparr>;
          s4 = (if ws s3 = Some OPEN then s3\<lparr>ws := Some (ws_close OPEN)\<rparr> else s3);
          s5 = s4\<lparr>isPlaying := False\<rparr>
      in case finalSummary of
           Some f \<Rightarrow> s5\<lparr>summary := Some f, status := title f\<rparr>
         | None \<Rightarrow> s5\<lparr>status := ''Ready to play again.''\<rparr>)"

subsection \<open>\<^verbatim>\<open>handleCodeChange\<close>\<close>

definition handleCodeChange :: "string \<Rightarrow> app \<Rightarrow> app" where
  "handleCodeChange newCode s =
     (let s1 = s\<lparr>code := newCode\<rparr>
      in if length (persistentErrors s1) > 0
         then s1\<lparr>persistentErrors := [], highlightedLines := None\<rparr>
         else s1)"

subsection \<open>\<^verbatim>\<open>handlePlay\<close>\<close>

text \<open>
  The part of \<^verbatim>\<open>handlePlay\<close> up to \<^verbatim>\<open>await classifyCode(code)\<close>, or up to the
  \<^verbatim>\<open>return\<close> of the branch taken while playing. Resuming the audio context
  (\<^verbatim>\<open>Tone.start()\<close>) is not part of the state.
\<close>

definition handlePlay :: "app \<Rightarrow> app" where
  "handlePlay s =
     (if isPlaying s then s\<lparr>ws := map_option ws_close (ws s)\<rparr>
      else s\<lparr>isPlaying := True, visualNodes := [], highlightedLines := None,
             summary := None, persistentErrors := [],
             status := ''1/3: Classifying code...''\<rparr>)"

text \<open>
  The rest of the \<^verbatim>\<open>try\<close> block, once the classification has arrived: the palette, a
  new synth in place of the disposed one, a new socket, and the empty buffers the handlers
  of that socket share. \<^verbatim>\<open>genre in musicPalettes\<close> is membership among the keys of the
  table, so the key looked up is always in the table and the \<open>None\<close> branch of the lookup
  is never taken.
\<close>

definition handlePlay_classified :: "classification \<Rightarrow> app \<Rightarrow> app \<times> session" where
  "handlePlay_classified c s =
     (let paletteKey = (if genre c \<in> set (map fst musicPalettes) then genre c
                        else ''default'');
          p = (case map_of musicPalettes paletteKey of
                 Some q \<Rightarrow> q
               | None \<Rightarrow> \<lparr>scale = [], synth_class = []\<rparr>);
          s1 = s\<lparr>activePalette := paletteKey\<rparr>;
          s2 = s1\<lparr>synth := map_option (\<lambda>y. y\<lparr>synth_disposed := True\<rparr>) (synth s1)\<rparr>;
          s3 = s2\<lparr>synth := Some \<lparr>synth_kind = synth_class p, synth_disposed = False\<rparr>\<rparr>;
          s4 = s3\<lparr>status := ''2/3: Analyzing code structure...''\<rparr>;
          s5 = s4\<lparr>ws := Some CONNECTING\<rparr>
      in (s5, \<lparr>palette = p, musicalEvents = [], errorMessages = [],
               collectedErrors = []\<rparr>))"

text \<open>The \<^verbatim>\<open>catch\<close> block, entered when \<^verbatim>\<open>classifyCode\<close> rejects.\<close>

definition handlePlay_catch :: "app \<Rightarrow> app" where
  "handlePlay_catch s =
     stopMusic (Some \<lparr>title = ''Connection Error'',
                      messages = [''Could not connect to the backend service.'']\<rparr>) s"

subsection \<open>The handlers of the socket\<close>

text \<open>
  \<^verbatim>\<open>ws.onopen\<close> only sends the code over the socket and changes nothing of the state.
  \<^verbatim>\<open>ws.onmessage\<close> is given the message as \<^verbatim>\<open>JSON.parse\<close> returns it.
\<close>

definition ws_onmessage :: "CodeEvent \<Rightarrow> session \<Rightarrow> session" where
  "ws_onmessage data c =
     (let c1 = c\<lparr>musicalEvents := musicalEvents c @ [data]\<rparr>
      in if isError data
         then c1\<lparr>errorMessages := errorMessages c1 @
                    [''Line '' @ string_of_int (startLine data) @ '': ['' @ type data @
                     ''] '' @ message data],
                 collectedErrors :=
                    AList.update (startLine data) (type data) (collectedErrors c1)\<rparr>
         else c1)"

definition ws_onerror :: "app \<Rightarrow> app" where
  "ws_onerror s =
     stopMusic (Some \<lparr>title = ''Connection Error'',
                      messages = [''Failed to connect to the visualizer service.'']\<rparr>) s"

text \<open>\<^verbatim>\<open>finalStop\<close>, with the two variables it closes over.\<close>

definition finalStop :: "(int \<times> string) list \<Rightarrow> summary_t \<Rightarrow> app \<Rightarrow> app" where
  "finalStop collected finalSummary s =
     stopMusic (Some finalSummary) (s\<lparr>persistentErrors := collected\<rparr>)"

text \<open>
  \<^verbatim>\<open>ws.onclose\<close>. Starting the new sequence at 0 puts its events on the timeline of the
  transport.
\<close>

definition ws_onclose :: "(string \<Rightarrow> real) \<Rightarrow> session \<Rightarrow> app \<Rightarrow> app" where
  "ws_onclose toSeconds c s =
     (if length (musicalEvents c) = 0 then
        stopMusic (Some \<lparr>title = ''Analysis Complete'',
                         messages = [''No parsable musical elements were found in the code.'']\<rparr>) s
      else
        (let s1 = s\<lparr>status := ''3/3: Composing and playing music...''\<rparr>;
             st = compile_loop toSeconds (scale (palette c)) (musicalEvents c);
             s2 = s1\<lparr>sequence := Some \<lparr>seq_events = scheduledEvents st, seq_loop = True,
                                        seq_disposed = False\<rparr>,
                     transport := (transport s1)
                        \<lparr>timeline := timeline (transport s1) @ scheduledEvents st\<rparr>\<rparr>;
             s3 = s2\<lparr>sequence := map_option (\<lambda>q. q\<lparr>seq_loop := False\<rparr>) (sequence s2)\<rparr>;
             s4 = Transport_start s3;
             finalSummary =
               \<lparr>title = (if length (errorMessages c) > 0
                          then ''Analysis Complete: Issues Found''
                          else ''Analysis Complete: Code is Clean!''),
                messages = errorMessages c\<rparr>;
             (h, s5) = setTimeout
                         \<lparr>cb_collectedErrors = collectedErrors c,
                          cb_finalSummary = finalSummary,
                          delay_ms = (cumulativeTime st + 2) * 1000\<rparr> s4
         in s5\<lparr>stopTimeoutRef := Some h\<rparr>))"

text \<open>The window runs the callback of the pending timer \<open>h\<close>, if there is one.\<close>

definition fire_timeout :: "nat \<Rightarrow> app \<Rightarrow> app" where
  "fire_timeout h s =
     (case timeouts s h of
        None \<Rightarrow> s
      | Some cb \<Rightarrow>
          finalStop (cb_collectedErrors cb) (cb_finalSummary cb)
            (s\<lparr>timeouts := (timeouts s)(h := None)\<rparr>))"

subsection \<open>The callback of \<^verbatim>\<open>Tone.Draw.schedule\<close>\<close>

text \<open>
  The identifier of the node and the three random numbers of its position come from the
  caller.
\<close>

definition newNode ::
  "(string \<Rightarrow> real) \<Rightarrow> string \<Rightarrow> real \<times> real \<times> real \<Rightarrow> ScheduledEvent \<Rightarrow> NodeVisualProps" where
  "newNode toSeconds ident rnd event =
     (let (r1, r2, r3) = rnd
      in \<lparr>node_id = ident, node_type = type event,
          position = ((r1 - 0.5) * 10, (r2 - 0.5) * 10, (r3 - 0.5) * 10),
          node_duration = toSeconds (duration event),
          node_isError = isError event\<rparr>)"

definition draw_callback ::
  "(string \<Rightarrow> real) \<Rightarrow> string \<Rightarrow> real \<times> real \<times> real \<Rightarrow> ScheduledEvent \<Rightarrow> app \<Rightarrow> app" where
  "draw_callback toSeconds ident rnd event s =
     s\<lparr>highlightedLines :=
          Some \<lparr>hl_start = startLine event, hl_end = endLine event,
                hl_type = type event, hl_isError = isError event\<rparr>,
       cameraEffect := (if isError event then 2.5 else 1.0),
       visualNodes :=
          slice_neg 30 (visualNodes s) @ [newNode toSeconds ident rnd event]\<rparr>"

subsection \<open>The cleanup of the component\<close>

definition unmount :: "app \<Rightarrow> app" where
  "unmount s =
     (let s1 = stopMusic None s
      in s1\<lparr>ws := map_option ws_close (ws s1)\<rparr>)"


section \<open>Runs of the component\<close>

text \<open>The initial values of the state hooks and refs, with no timer pending.\<close>

definition initial_app :: app where
  "initial_app =
     \<lparr>code = ''function factorial(n) {\<newline>  if (n === 0) {\<newline>    return 1;\<newline>  } else {\<newline>    let result = 1;\<newline>    // A syntax error for demonstration\<newline>    for (let i = 1; i <= n; i++ {\<newline>      result *= i;\<newline>    }\<newline>    return result;\<newline>  }\<newline>}'',
      isPlaying = False,
      status = ''Ready. Paste your code and press Play.'',
      visualNodes = [],
      cameraEffect = 0,
      activePalette = ''default'',
      highlightedLines = None,
      summary = None,
      persistentErrors = [],
      ws = None,
      synth = None,
      sequence = None,
      stopTimeoutRef = None,
      transport = \<lparr>started = False, timeline = []\<rparr>,
      timeouts = Map.empty,
      timer_counter = 0\<rparr>"

text \<open>The messages of a stream, delivered in order to \<^verbatim>\<open>ws.onmessage\<close>.\<close>

definition stream :: "CodeEvent list \<Rightarrow> session \<Rightarrow> session" where
  "stream es c = foldl (\<lambda>c' e. ws_onmessage e c') c es"

text \<open>
  One session up to the close of its stream: the play request, the classification, the
  socket opening, the messages \<open>es\<close>, and the socket closing. A play request while
  playing does not start a session.
\<close>

definition play_session ::
  "(string \<Rightarrow> real) \<Rightarrow> classification \<Rightarrow> CodeEvent list \<Rightarrow> app \<Rightarrow> app" where
  "play_session toSeconds cl es s =
     (if isPlaying s then handlePlay s
      else
        (let (s1, c0) = handlePlay_classified cl (handlePlay s)
         in ws_onclose toSeconds (stream es c0) (socket_closed (socket_opened s1))))"

text \<open>The timer held in \<^verbatim>\<open>stopTimeoutRef\<close> fires.\<close>

definition finalize :: "app \<Rightarrow> app" where
  "finalize s = (case stopTimeoutRef s of None \<Rightarrow> s | Some h \<Rightarrow> fire_timeout h s)"

text \<open>The draw callbacks of a list of fired events, in order.\<close>

definition spawn_all ::
  "(string \<Rightarrow> real) \<Rightarrow> (string \<times> (real \<times> real \<times> real) \<times> ScheduledEvent) list \<Rightarrow> app \<Rightarrow> app" where
  "spawn_all toSeconds xs s =
     foldl (\<lambda>s' (ident, rnd, event). draw_callback toSeconds ident rnd event s') s xs"

section \<open>Example inputs\<close>

text \<open>
  The error event of the spec's end-to-end scenario, a plain statement, a classification,
  and \<open>n\<close> fired events with the node identifiers \<open>0\<close> to \<open>n - 1\<close>.
\<close>

definition syntax_error_event :: CodeEvent where
  "syntax_error_event =
     \<lparr>type = ''syntax_error'', startLine = 7, endLine = 9, isError = True,
      message = ''missing )''\<rparr>"

definition statement_event :: CodeEvent where
  "statement_event =
     \<lparr>type = ''return_statement'', startLine = 3, endLine = 3, isError = False,
      message = ''''\<rparr>"

definition example_classification :: classification where
  "example_classification = \<lparr>genre = ''JS-Functional'', confidence = 9 / 10\<rparr>"

definition example_spawns ::
  "nat \<Rightarrow> (string \<times> (real \<times> real \<times> real) \<times> ScheduledEvent) list" where
  "example_spawns n =
     map (\<lambda>k. (string_of_nat k, (1 / 2, 1 / 2, 1 / 2),
               \<lparr>type = ''return_statement'', startLine = 3, endLine = 3, isError = False,
                message = '''', time = real k / 8, note' = Single (Some ''C4''),
                duration = ''16n''\<rparr>)) [0..<n]"

section \<open>Properties of the compile loop\<close>

lemma compile_loop_Nil:
  "compile_loop T sc [] = \<lparr>scheduledEvents = [], cumulativeTime = 0, messageCounter = 0\<rparr>"
  by (simp add: compile_loop_def)

lemma compile_loop_snoc:
  "compile_loop T sc (es @ [e]) = compile_step T sc (compile_loop T sc es) e"
  by (simp add: compile_loop_def)

lemma length_compile_loop:
  "length (scheduledEvents (compile_loop T sc es)) = length es"
  by (induction es rule: rev_induct)
     (simp_all add: compile_loop_Nil compile_loop_snoc compile_step_def Let_def split: prod.splits)

lemma messageCounter_compile_loop:
  "messageCounter (compile_loop T sc es) = length (filter (\<lambda>e. \<not> isError e) es)"
  by (induction es rule: rev_induct)
     (simp_all add: compile_loop_Nil compile_loop_snoc compile_step_def Let_def split: prod.splits)

lemma scheduledEvents_step:
  "scheduledEvents (compile_step T sc st e) = scheduledEvents st @ [last (scheduledEvents (compile_step T sc st e))]"
  by (simp add: compile_step_def Let_def split: prod.splits)

lemma compile_loop_take:
  "i \<le> length es \<Longrightarrow> take i (scheduledEvents (compile_loop T sc es)) = scheduledEvents (compile_loop T sc (take i es))"
proof (induction es rule: rev_induct)
  case Nil
  then show ?case by (simp add: compile_loop_Nil)
next
  case (snoc e es)
  show ?case
  proof (cases "i = Suc (length es)")
    case True
    then show ?thesis using length_compile_loop[of T sc "es @ [e]"] by simp
  next
    case False
    with snoc.prems have le: "i \<le> length es" by simp
    have "scheduledEvents (compile_loop T sc (es @ [e])) = scheduledEvents (compile_loop T sc es) @ [last (scheduledEvents (compile_step T sc (compile_loop T sc es) e))]"
      using scheduledEvents_step[of T sc "compile_loop T sc es" e] by (simp add: compile_loop_snoc)
    then show ?thesis using le snoc.IH[OF le] by (simp add: length_compile_loop)
  qed
qed

lemma compile_loop_nth:
  assumes "i < length es"
  shows "scheduledEvents (compile_loop T sc es) ! i
         = last (scheduledEvents (compile_step T sc (compile_loop T sc (take i es)) (es ! i)))"
proof -
  have "take (Suc i) (scheduledEvents (compile_loop T sc es)) = scheduledEvents (compile_loop T sc (take (Suc i) es))"
    using assms by (intro compile_loop_take) simp
  also have "take (Suc i) es = take i es @ [es ! i]"
    using assms by (simp add: take_Suc_conv_app_nth)
  finally have "take (Suc i) (scheduledEvents (compile_loop T sc es)) = scheduledEvents (compile_step T sc (compile_loop T sc (take i es)) (es ! i))"
    by (simp add: compile_loop_snoc)
  moreover have "i < length (scheduledEvents (compile_loop T sc es))" using assms by (simp add: length_compile_loop)
  ultimately show ?thesis
    by (metis (no_types, lifting) length_take min.absorb2 Suc_leI lessI nth_take last_conv_nth diff_Suc_1 list.size(3) nat.distinct(1))
qed


lemma compile_step_last:
  "last (scheduledEvents (compile_step T sc st e)) =
     \<lparr>type = type e, startLine = startLine e, endLine = endLine e, isError = isError e,
      message = message e, time = cumulativeTime st,
      note' = (if isError e then
                 (if type e = ''syntax_error'' then Chord [Some ''C2'', Some ''C#2'']
                  else if type e = ''logical_error'' then Chord [Some ''E2'', Some ''F2'']
                  else if type e = ''best_practice'' then Chord [Some ''G2'', Some ''G#2'']
                  else Single (Some ''C2''))
               else if type e = ''function_declaration'' \<or> type e = ''arrow_function'' then
                 Chord [js_index sc (js_rem (nat \<bar>startLine e + int (messageCounter st)\<bar>) (length sc)),
                        js_index sc (js_rem (nat \<bar>startLine e + int (messageCounter st)\<bar> + 3) (length sc))]
               else Single (js_index sc (js_rem (nat \<bar>startLine e + int (messageCounter st)\<bar>) (length sc)))),
      duration = (if isError e then (if type e = ''syntax_error'' then ''8n'' else ''16n'')
                  else if type e = ''function_declaration'' \<or> type e = ''arrow_function'' then ''4n''
                  else ''16n'')\<rparr>"
  by (simp add: compile_step_def Let_def)

lemma js_index_rem:
  "sc \<noteq> [] \<Longrightarrow> js_index sc (js_rem n (length sc)) = Some (sc ! (n mod length sc))"
  by (simp add: js_index_def js_rem_def)

text \<open>
  Claim C1. For an event that is not an error, at position \<open>i\<close> of the buffered sequence,
  the index is the absolute value of its start line plus the number of non-error events
  before it. A \<^verbatim>\<open>function_declaration\<close> or \<^verbatim>\<open>arrow_function\<close> gets the pair of pitches at
  \<open>index mod len\<close> and \<open>(index + 3) mod len\<close> of the scale with the duration \<^verbatim>\<open>4n\<close>
  (a quarter note); any other kind gets the single pitch at \<open>index mod len\<close> with the
  duration \<^verbatim>\<open>16n\<close> (a sixteenth). In particular a simple statement at start line 5 that
  is the third non-error event gets the pitch at \<open>7 mod len\<close>.
\<close>

theorem non_error_pitch_selection:
  assumes "i < length es" and "\<not> isError (es ! i)" and "sc \<noteq> []"
  shows "let nonErrorIndex = length (filter (\<lambda>e. \<not> isError e) (take i es));
             index = nat \<bar>startLine (es ! i) + int nonErrorIndex\<bar>;
             ev = scheduledEvents (compile_loop T sc es) ! i
         in (if type (es ! i) = ''function_declaration'' \<or> type (es ! i) = ''arrow_function''
             then note' ev = Chord [Some (sc ! (index mod length sc)),
                                    Some (sc ! ((index + 3) mod length sc))]
                  \<and> duration ev = ''4n''
             else note' ev = Single (Some (sc ! (index mod length sc)))
                  \<and> duration ev = ''16n'')
            \<and> (startLine (es ! i) = 5 \<and> nonErrorIndex = 2
                 \<and> type (es ! i) \<noteq> ''function_declaration''
                 \<and> type (es ! i) \<noteq> ''arrow_function''
                \<longrightarrow> note' ev = Single (Some (sc ! (7 mod length sc))))"
  using assms
  by (simp add: compile_loop_nth compile_step_last messageCounter_compile_loop js_index_rem Let_def)

theorem non_error_pitch_selection_witness:
  "(3::nat) < length
      [\<lparr>type = ''variable_declaration'', startLine = 1, endLine = 1, isError = False, message = ''''\<rparr>,
       \<lparr>type = ''syntax_error'', startLine = 2, endLine = 2, isError = True, message = ''missing )''\<rparr>,
       \<lparr>type = ''if_statement'', startLine = 3, endLine = 4, isError = False, message = ''''\<rparr>,
       \<lparr>type = ''return_statement'', startLine = 5, endLine = 5, isError = False, message = ''''\<rparr>]
   \<and> note' (scheduledEvents (compile_loop toSeconds_120bpm
        [''C4'', ''D4'', ''E4'', ''F4'', ''G4'', ''A4'', ''B4'', ''C5'']
        [\<lparr>type = ''variable_declaration'', startLine = 1, endLine = 1, isError = False, message = ''''\<rparr>,
         \<lparr>type = ''syntax_error'', startLine = 2, endLine = 2, isError = True, message = ''missing )''\<rparr>,
         \<lparr>type = ''if_statement'', startLine = 3, endLine = 4, isError = False, message = ''''\<rparr>,
         \<lparr>type = ''return_statement'', startLine = 5, endLine = 5, isError = False, message = ''''\<rparr>]) ! 3)
     = Single (Some ''C5'')"
  using non_error_pitch_selection [of 3
      "[\<lparr>type = ''variable_declaration'', startLine = 1, endLine = 1, isError = False, message = ''''\<rparr>,
       \<lparr>type = ''syntax_error'', startLine = 2, endLine = 2, isError = True, message = ''missing )''\<rparr>,
       \<lparr>type = ''if_statement'', startLine = 3, endLine = 4, isError = False, message = ''''\<rparr>,
       \<lparr>type = ''return_statement'', startLine = 5, endLine = 5, isError = False, message = ''''\<rparr>]"
      "[''C4'', ''D4'', ''E4'', ''F4'', ''G4'', ''A4'', ''B4'', ''C5'']" toSeconds_120bpm]
  by (simp add: Let_def)

lemma cumulativeTime_compile_loop:
  "cumulativeTime (compile_loop T sc es) =
     sum_list (map (\<lambda>ev. T (duration ev)) (scheduledEvents (compile_loop T sc es)))"
proof (induction es rule: rev_induct)
  case Nil
  show ?case by (simp add: compile_loop_Nil)
next
  case (snoc e es)
  define x where "x = last (scheduledEvents (compile_step T sc (compile_loop T sc es) e))"
  have c: "cumulativeTime (compile_step T sc (compile_loop T sc es) e) =
        cumulativeTime (compile_loop T sc es) + T (duration x)"
    unfolding x_def by (simp add: compile_step_def Let_def)
  have s: "scheduledEvents (compile_step T sc (compile_loop T sc es) e) =
        scheduledEvents (compile_loop T sc es) @ [x]"
    unfolding x_def by (rule scheduledEvents_step)
  show ?case
    using snoc.IH by (simp add: compile_loop_snoc c s)
qed

lemma duration_compile_step:
  "duration (last (scheduledEvents (compile_step T sc st e))) = ''4n''
   \<or> duration (last (scheduledEvents (compile_step T sc st e))) = ''8n''
   \<or> duration (last (scheduledEvents (compile_step T sc st e))) = ''16n''"
  by (simp add: compile_step_last)

lemma duration_compile_loop:
  "ev \<in> set (scheduledEvents (compile_loop T sc es)) \<Longrightarrow>
     duration ev = ''4n'' \<or> duration ev = ''8n'' \<or> duration ev = ''16n''"
proof (induction es rule: rev_induct)
  case Nil
  then show ?case by (simp add: compile_loop_Nil)
next
  case (snoc e es)
  define x where "x = last (scheduledEvents (compile_step T sc (compile_loop T sc es) e))"
  have s: "scheduledEvents (compile_loop T sc (es @ [e])) =
        scheduledEvents (compile_loop T sc es) @ [x]"
    unfolding x_def using scheduledEvents_step [of T sc "compile_loop T sc es" e]
    by (simp add: compile_loop_snoc)
  have d: "duration x = ''4n'' \<or> duration x = ''8n'' \<or> duration x = ''16n''"
    unfolding x_def by (rule duration_compile_step)
  from snoc.prems have "ev \<in> set (scheduledEvents (compile_loop T sc es)) \<or> ev = x"
    by (auto simp: s)
  then show ?case
    using snoc.IH d by blast
qed

lemma time_compile_loop:
  assumes "i < length es"
  shows "time (scheduledEvents (compile_loop T sc es) ! i) =
           sum_list (map (\<lambda>ev. T (duration ev)) (take i (scheduledEvents (compile_loop T sc es))))"
proof -
  have "time (scheduledEvents (compile_loop T sc es) ! i) =
          cumulativeTime (compile_loop T sc (take i es))"
    using assms by (simp add: compile_loop_nth compile_step_last)
  also have "\<dots> = sum_list (map (\<lambda>ev. T (duration ev))
                       (scheduledEvents (compile_loop T sc (take i es))))"
    by (rule cumulativeTime_compile_loop)
  also have "scheduledEvents (compile_loop T sc (take i es)) =
               take i (scheduledEvents (compile_loop T sc es))"
    using assms by (simp add: compile_loop_take)
  finally show ?thesis .
qed

lemma sum_list_take_mono:
  fixes f :: "'a \<Rightarrow> real"
  assumes "\<And>x. x \<in> set xs \<Longrightarrow> 0 \<le> f x" and "i \<le> j"
  shows "sum_list (map f (take i xs)) \<le> sum_list (map f (take j xs))"
proof -
  have "take j xs = take i xs @ drop i (take j xs)"
    using assms(2) by (metis append_take_drop_id min.absorb1 take_take)
  then have "sum_list (map f (take j xs)) =
               sum_list (map f (take i xs)) + sum_list (map f (drop i (take j xs)))"
    by (metis map_append sum_list_append)
  moreover have "0 \<le> sum_list (map f (drop i (take j xs)))"
    using assms(1) by (intro sum_list_nonneg) (auto dest!: in_set_dropD in_set_takeD)
  ultimately show ?thesis by simp
qed

text \<open>
  Claim C2. The loop produces one scheduled event per buffered event, in arrival order
  (each carries the fields of the event at the same position), and the time of the
  scheduled event at position \<open>i\<close> is the sum of the durations in seconds of the scheduled
  events before it. Where the conversion gives no negative number of seconds for the
  three durations the loop assigns, the times never decrease along the sequence.
\<close>

theorem schedule_order_and_times:
  "length (scheduledEvents (compile_loop T sc es)) = length es
   \<and> (\<forall>i < length es.
        let ev = scheduledEvents (compile_loop T sc es) ! i
        in type ev = type (es ! i) \<and> startLine ev = startLine (es ! i)
           \<and> endLine ev = endLine (es ! i) \<and> isError ev = isError (es ! i)
           \<and> message ev = message (es ! i)
           \<and> time ev = sum_list (map (\<lambda>p. T (duration p))
                          (take i (scheduledEvents (compile_loop T sc es)))))
   \<and> (0 \<le> T ''4n'' \<and> 0 \<le> T ''8n'' \<and> 0 \<le> T ''16n'' \<longrightarrow>
        (\<forall>i j. i \<le> j \<and> j < length es \<longrightarrow>
           time (scheduledEvents (compile_loop T sc es) ! i)
             \<le> time (scheduledEvents (compile_loop T sc es) ! j)))"
proof (intro conjI allI impI)
  show "length (scheduledEvents (compile_loop T sc es)) = length es"
    by (rule length_compile_loop)
next
  fix i assume "i < length es"
  then show "let ev = scheduledEvents (compile_loop T sc es) ! i
        in type ev = type (es ! i) \<and> startLine ev = startLine (es ! i)
           \<and> endLine ev = endLine (es ! i) \<and> isError ev = isError (es ! i)
           \<and> message ev = message (es ! i)
           \<and> time ev = sum_list (map (\<lambda>p. T (duration p))
                          (take i (scheduledEvents (compile_loop T sc es))))"
    using time_compile_loop [of i es T sc]
    by (simp add: Let_def compile_loop_nth compile_step_last)
next
  fix i j
  assume nonneg: "0 \<le> T ''4n'' \<and> 0 \<le> T ''8n'' \<and> 0 \<le> T ''16n''"
    and ij: "i \<le> j \<and> j < length es"
  have "0 \<le> T (duration ev)" if "ev \<in> set (scheduledEvents (compile_loop T sc es))" for ev
    using duration_compile_loop [OF that] nonneg by auto
  then have "sum_list (map (\<lambda>p. T (duration p)) (take i (scheduledEvents (compile_loop T sc es))))
           \<le> sum_list (map (\<lambda>p. T (duration p)) (take j (scheduledEvents (compile_loop T sc es))))"
    using ij by (intro sum_list_take_mono) auto
  then show "time (scheduledEvents (compile_loop T sc es) ! i)
             \<le> time (scheduledEvents (compile_loop T sc es) ! j)"
    using ij by (simp add: time_compile_loop)
qed

theorem schedule_order_and_times_witness:
  "0 \<le> toSeconds_120bpm ''4n'' \<and> 0 \<le> toSeconds_120bpm ''8n'' \<and> 0 \<le> toSeconds_120bpm ''16n''
   \<and> (1::nat) \<le> 2
   \<and> 2 < length
      [\<lparr>type = ''function_declaration'', startLine = 1, endLine = 12, isError = False, message = ''''\<rparr>,
       \<lparr>type = ''syntax_error'', startLine = 7, endLine = 9, isError = True, message = ''missing )''\<rparr>,
       \<lparr>type = ''return_statement'', startLine = 10, endLine = 10, isError = False, message = ''''\<rparr>]
   \<and> time (scheduledEvents (compile_loop toSeconds_120bpm
        [''C4'', ''D4'', ''E4'', ''F4'', ''G4'', ''A4'', ''B4'', ''C5'']
        [\<lparr>type = ''function_declaration'', startLine = 1, endLine = 12, isError = False, message = ''''\<rparr>,
         \<lparr>type = ''syntax_error'', startLine = 7, endLine = 9, isError = True, message = ''missing )''\<rparr>,
         \<lparr>type = ''return_statement'', startLine = 10, endLine = 10, isError = False, message = ''''\<rparr>]) ! 1)
     \<le> time (scheduledEvents (compile_loop toSeconds_120bpm
        [''C4'', ''D4'', ''E4'', ''F4'', ''G4'', ''A4'', ''B4'', ''C5'']
        [\<lparr>type = ''function_declaration'', startLine = 1, endLine = 12, isError = False, message = ''''\<rparr>,
         \<lparr>type = ''syntax_error'', startLine = 7, endLine = 9, isError = True, message = ''missing )''\<rparr>,
         \<lparr>type = ''return_statement'', startLine = 10, endLine = 10, isError = False, message = ''''\<rparr>]) ! 2)
   \<and> length (scheduledEvents (compile_loop toSeconds_120bpm
        [''C4'', ''D4'', ''E4'', ''F4'', ''G4'', ''A4'', ''B4'', ''C5'']
        [\<lparr>type = ''function_declaration'', startLine = 1, endLine = 12, isError = False, message = ''''\<rparr>,
         \<lparr>type = ''syntax_error'', startLine = 7, endLine = 9, isError = True, message = ''missing )''\<rparr>,
         \<lparr>type = ''return_statement'', startLine = 10, endLine = 10, isError = False, message = ''''\<rparr>])) = 3"
proof -
  let ?es = "[\<lparr>type = ''function_declaration'', startLine = 1, endLine = 12, isError = False, message = ''''\<rparr>,
       \<lparr>type = ''syntax_error'', startLine = 7, endLine = 9, isError = True, message = ''missing )''\<rparr>,
       \<lparr>type = ''return_statement'', startLine = 10, endLine = 10, isError = False, message = ''''\<rparr>]"
  let ?sc = "[''C4'', ''D4'', ''E4'', ''F4'', ''G4'', ''A4'', ''B4'', ''C5'']"
  note t = schedule_order_and_times [of toSeconds_120bpm ?sc ?es]
  have nn: "0 \<le> toSeconds_120bpm ''4n'' \<and> 0 \<le> toSeconds_120bpm ''8n'' \<and> 0 \<le> toSeconds_120bpm ''16n''"
    by (simp add: toSeconds_120bpm_def)
  have len: "length (scheduledEvents (compile_loop toSeconds_120bpm ?sc ?es)) = 3"
    using t by simp
  from t nn have "\<forall>i j. i \<le> j \<and> j < length ?es \<longrightarrow>
           time (scheduledEvents (compile_loop toSeconds_120bpm ?sc ?es) ! i)
             \<le> time (scheduledEvents (compile_loop toSeconds_120bpm ?sc ?es) ! j)"
    by blast
  then have "time (scheduledEvents (compile_loop toSeconds_120bpm ?sc ?es) ! 1)
             \<le> time (scheduledEvents (compile_loop toSeconds_120bpm ?sc ?es) ! 2)"
    by simp
  with nn len show ?thesis by simp
qed

text \<open>
  Claim C3. For an event that is an error, pitch and duration come from a table on the
  kind alone (\<^verbatim>\<open>syntax_error\<close>, \<^verbatim>\<open>logical_error\<close>, \<^verbatim>\<open>best_practice\<close>, and a default):
  neither the scale, nor the start line, nor the counter of non-error events occurs in
  it. The counter is the same after the event as before it.
\<close>

theorem error_pitch_table:
  assumes "i < length es" and "isError (es ! i)"
  shows "let ev = scheduledEvents (compile_loop T sc es) ! i; kind = type (es ! i)
         in (note' ev, duration ev) =
              (if kind = ''syntax_error'' then (Chord [Some ''C2'', Some ''C#2''], ''8n'')
               else if kind = ''logical_error'' then (Chord [Some ''E2'', Some ''F2''], ''16n'')
               else if kind = ''best_practice'' then (Chord [Some ''G2'', Some ''G#2''], ''16n'')
               else (Single (Some ''C2''), ''16n''))
            \<and> messageCounter (compile_loop T sc (take (Suc i) es))
                = messageCounter (compile_loop T sc (take i es))"
  using assms
  by (simp add: compile_loop_nth compile_step_last messageCounter_compile_loop
        take_Suc_conv_app_nth Let_def)

theorem error_pitch_table_witness:
  "(1::nat) < length
      [\<lparr>type = ''if_statement'', startLine = 2, endLine = 4, isError = False, message = ''''\<rparr>,
       \<lparr>type = ''syntax_error'', startLine = 7, endLine = 9, isError = True, message = ''missing )''\<rparr>]
   \<and> isError
      ([\<lparr>type = ''if_statement'', startLine = 2, endLine = 4, isError = False, message = ''''\<rparr>,
        \<lparr>type = ''syntax_error'', startLine = 7, endLine = 9, isError = True, message = ''missing )''\<rparr>] ! 1)
   \<and> note' (scheduledEvents (compile_loop toSeconds_120bpm
        [''G4'', ''A4'', ''C5'', ''D5'', ''F5'', ''G5'', ''A5'', ''C6'']
        [\<lparr>type = ''if_statement'', startLine = 2, endLine = 4, isError = False, message = ''''\<rparr>,
         \<lparr>type = ''syntax_error'', startLine = 7, endLine = 9, isError = True, message = ''missing )''\<rparr>]) ! 1)
     = Chord [Some ''C2'', Some ''C#2'']
   \<and> duration (scheduledEvents (compile_loop toSeconds_120bpm
        [''G4'', ''A4'', ''C5'', ''D5'', ''F5'', ''G5'', ''A5'', ''C6'']
        [\<lparr>type = ''if_statement'', startLine = 2, endLine = 4, isError = False, message = ''''\<rparr>,
         \<lparr>type = ''syntax_error'', startLine = 7, endLine = 9, isError = True, message = ''missing )''\<rparr>]) ! 1)
     = ''8n''"
  using error_pitch_table [of 1
      "[\<lparr>type = ''if_statement'', startLine = 2, endLine = 4, isError = False, message = ''''\<rparr>,
        \<lparr>type = ''syntax_error'', startLine = 7, endLine = 9, isError = True, message = ''missing )''\<rparr>]"
      toSeconds_120bpm "[''G4'', ''A4'', ''C5'', ''D5'', ''F5'', ''G5'', ''A5'', ''C6'']"]
  by (simp add: Let_def)

section \<open>Properties of the handlers and of sessions\<close>

lemma stopMusic_persistentErrors: "persistentErrors (stopMusic f s) = persistentErrors s"
  by (simp add: stopMusic_def Let_def clearTimeout_def Transport_cancel_def Transport_stop_def
      split: option.splits)

lemma stopMusic_isPlaying: "isPlaying (stopMusic f s) = False"
  by (simp add: stopMusic_def Let_def clearTimeout_def Transport_cancel_def Transport_stop_def
      split: option.splits)

lemma stopMusic_summary:
  "summary (stopMusic f s) = (case f of None \<Rightarrow> summary s | Some x \<Rightarrow> Some x)"
  by (simp add: stopMusic_def Let_def clearTimeout_def Transport_cancel_def Transport_stop_def
      split: option.splits)

lemma stopMusic_status:
  "status (stopMusic f s) = (case f of None \<Rightarrow> ''Ready to play again.'' | Some x \<Rightarrow> title x)"
  by (simp add: stopMusic_def Let_def clearTimeout_def Transport_cancel_def Transport_stop_def
      split: option.splits)

lemma stopMusic_transport: "transport (stopMusic f s) = \<lparr>started = False, timeline = []\<rparr>"
  by (cases "transport s")
     (simp add: stopMusic_def Let_def clearTimeout_def Transport_cancel_def Transport_stop_def
      split: option.splits)

lemma stopMusic_sequence:
  "sequence (stopMusic f s) = map_option (\<lambda>q. q\<lparr>seq_disposed := True\<rparr>) (sequence s)"
  by (simp add: stopMusic_def Let_def clearTimeout_def Transport_cancel_def Transport_stop_def
      split: option.splits)

lemma stopMusic_ws:
  "ws (stopMusic f s) = (if ws s = Some OPEN then Some CLOSING else ws s)"
  by (simp add: stopMusic_def Let_def clearTimeout_def Transport_cancel_def Transport_stop_def
      split: option.splits)

lemma stopMusic_synth: "synth (stopMusic f s) = synth s"
  by (simp add: stopMusic_def Let_def clearTimeout_def Transport_cancel_def Transport_stop_def
      split: option.splits)

lemma stopMusic_timeouts:
  "timeouts (stopMusic f s) =
     (case stopTimeoutRef s of None \<Rightarrow> timeouts s
      | Some h \<Rightarrow> if h \<noteq> 0 then (timeouts s)(h := None) else timeouts s)"
  by (simp add: stopMusic_def Let_def clearTimeout_def Transport_cancel_def Transport_stop_def
      split: option.splits)

lemma stopMusic_refs:
  "stopTimeoutRef (stopMusic f s) = stopTimeoutRef s"
  "timer_counter (stopMusic f s) = timer_counter s"
  "visualNodes (stopMusic f s) = visualNodes s"
  "highlightedLines (stopMusic f s) = highlightedLines s"
  "code (stopMusic f s) = code s"
  by (simp_all add: stopMusic_def Let_def clearTimeout_def Transport_cancel_def Transport_stop_def
      split: option.splits)

lemma stream_snoc: "stream (es @ [e]) c = ws_onmessage e (stream es c)"
  by (simp add: stream_def)

lemma stream_musicalEvents: "musicalEvents (stream es c) = musicalEvents c @ es"
  by (induction es rule: rev_induct) (simp_all add: stream_def ws_onmessage_def Let_def)

lemma stream_palette: "palette (stream es c) = palette c"
  by (induction es rule: rev_induct) (simp_all add: stream_def ws_onmessage_def Let_def)

lemma stream_no_errors:
  "\<forall>e \<in> set es. \<not> isError e \<Longrightarrow>
     errorMessages (stream es c) = errorMessages c \<and> collectedErrors (stream es c) = collectedErrors c"
  by (induction es rule: rev_induct) (simp_all add: stream_def ws_onmessage_def Let_def)

lemma handlePlay_idle:
  "\<not> isPlaying s \<Longrightarrow> handlePlay s =
     s\<lparr>isPlaying := True, visualNodes := [], highlightedLines := None,
       summary := None, persistentErrors := [], status := ''1/3: Classifying code...''\<rparr>"
  by (simp add: handlePlay_def)

lemma handlePlay_playing:
  "isPlaying s \<Longrightarrow> handlePlay s = s\<lparr>ws := map_option ws_close (ws s)\<rparr>"
  by (simp add: handlePlay_def)

lemma handlePlay_classified_session:
  "snd (handlePlay_classified cl s) =
     \<lparr>palette = palette (snd (handlePlay_classified cl s)), musicalEvents = [],
      errorMessages = [], collectedErrors = []\<rparr>"
  by (simp add: handlePlay_classified_def Let_def)

lemma handlePlay_classified_frame:
  "persistentErrors (fst (handlePlay_classified cl s)) = persistentErrors s"
  "isPlaying (fst (handlePlay_classified cl s)) = isPlaying s"
  "summary (fst (handlePlay_classified cl s)) = summary s"
  "sequence (fst (handlePlay_classified cl s)) = sequence s"
  "transport (fst (handlePlay_classified cl s)) = transport s"
  "stopTimeoutRef (fst (handlePlay_classified cl s)) = stopTimeoutRef s"
  "timeouts (fst (handlePlay_classified cl s)) = timeouts s"
  "timer_counter (fst (handlePlay_classified cl s)) = timer_counter s"
  "visualNodes (fst (handlePlay_classified cl s)) = visualNodes s"
  "ws (fst (handlePlay_classified cl s)) = Some CONNECTING"
  by (simp_all add: handlePlay_classified_def Let_def)

lemma socket_frame:
  "persistentErrors (socket_opened s) = persistentErrors s"
  "persistentErrors (socket_closed s) = persistentErrors s"
  "isPlaying (socket_opened s) = isPlaying s"
  "isPlaying (socket_closed s) = isPlaying s"
  "summary (socket_opened s) = summary s"
  "summary (socket_closed s) = summary s"
  "sequence (socket_opened s) = sequence s"
  "sequence (socket_closed s) = sequence s"
  "transport (socket_opened s) = transport s"
  "transport (socket_closed s) = transport s"
  "stopTimeoutRef (socket_opened s) = stopTimeoutRef s"
  "stopTimeoutRef (socket_closed s) = stopTimeoutRef s"
  "timeouts (socket_opened s) = timeouts s"
  "timeouts (socket_closed s) = timeouts s"
  "timer_counter (socket_opened s) = timer_counter s"
  "timer_counter (socket_closed s) = timer_counter s"
  "visualNodes (socket_opened s) = visualNodes s"
  "visualNodes (socket_closed s) = visualNodes s"
  by (simp_all add: socket_opened_def socket_closed_def)

lemma ws_onclose_empty:
  "musicalEvents c = [] \<Longrightarrow>
     ws_onclose T c s =
       stopMusic (Some \<lparr>title = ''Analysis Complete'',
                        messages = [''No parsable musical elements were found in the code.'']\<rparr>) s"
  by (simp add: ws_onclose_def)

lemma ws_onclose_nonempty:
  assumes "musicalEvents c \<noteq> []"
  shows "persistentErrors (ws_onclose T c s) = persistentErrors s"
    and "isPlaying (ws_onclose T c s) = isPlaying s"
    and "summary (ws_onclose T c s) = summary s"
    and "visualNodes (ws_onclose T c s) = visualNodes s"
    and "synth (ws_onclose T c s) = synth s"
    and "ws (ws_onclose T c s) = ws s"
    and "sequence (ws_onclose T c s) =
           Some \<lparr>seq_events = scheduledEvents
                    (compile_loop T (scale (palette c)) (musicalEvents c)),
                 seq_loop = False, seq_disposed = False\<rparr>"
    and "transport (ws_onclose T c s) =
           \<lparr>started = True,
            timeline = timeline (transport s) @
              scheduledEvents (compile_loop T (scale (palette c)) (musicalEvents c))\<rparr>"
    and "stopTimeoutRef (ws_onclose T c s) = Some (timer_counter s + 1)"
    and "timer_counter (ws_onclose T c s) = timer_counter s + 1"
    and "timeouts (ws_onclose T c s) =
           (timeouts s)(timer_counter s + 1 \<mapsto>
              \<lparr>cb_collectedErrors = collectedErrors c,
               cb_finalSummary =
                 \<lparr>title = (if length (errorMessages c) > 0
                            then ''Analysis Complete: Issues Found''
                            else ''Analysis Complete: Code is Clean!''),
                  messages = errorMessages c\<rparr>,
               delay_ms = (cumulativeTime
                    (compile_loop T (scale (palette c)) (musicalEvents c)) + 2) * 1000\<rparr>)"
  using assms
  by (cases "transport s";
      simp add: ws_onclose_def Let_def setTimeout_def Transport_start_def split: prod.splits)+

lemma play_session_idle:
  "\<not> isPlaying s \<Longrightarrow>
     play_session T cl es s =
       ws_onclose T (stream es (snd (handlePlay_classified cl (handlePlay s))))
         (socket_closed (socket_opened (fst (handlePlay_classified cl (handlePlay s)))))"
  by (simp add: play_session_def split: prod.splits)

lemma stream_fresh:
  "musicalEvents (stream es (snd (handlePlay_classified cl s))) = es"
  by (subst handlePlay_classified_session) (simp add: stream_musicalEvents)

lemma stream_fresh_clean:
  assumes "\<forall>e \<in> set es. \<not> isError e"
  shows "errorMessages (stream es (snd (handlePlay_classified cl s))) = []"
    and "collectedErrors (stream es (snd (handlePlay_classified cl s))) = []"
  using stream_no_errors [OF assms, of "snd (handlePlay_classified cl s)"]
  by (simp_all add: handlePlay_classified_def Let_def)

text \<open>
  Claim C7. A session whose stream closes with no buffered event ends at once with the
  empty-analysis outcome: the summary is titled \<^verbatim>\<open>Analysis Complete\<close> and carries the
  message that no parsable musical elements were found, the persistent error map is empty,
  the component is no longer playing, no new sequence is stored (the one of an earlier
  session is only disposed), nothing is on the timeline of the transport, and no finalize
  timer is created.
\<close>

theorem empty_stream_outcome:
  assumes "\<not> isPlaying s"
  shows "let s' = play_session T cl [] s
         in summary s' =
              Some \<lparr>title = ''Analysis Complete'',
                    messages = [''No parsable musical elements were found in the code.'']\<rparr>
            \<and> status s' = ''Analysis Complete''
            \<and> persistentErrors s' = []
            \<and> \<not> isPlaying s'
            \<and> sequence s' = map_option (\<lambda>q. q\<lparr>seq_disposed := True\<rparr>) (sequence s)
            \<and> transport s' = \<lparr>started = False, timeline = []\<rparr>
            \<and> stopTimeoutRef s' = stopTimeoutRef s
            \<and> timer_counter s' = timer_counter s"
  using assms
  by (simp add: Let_def play_session_idle stream_fresh ws_onclose_empty
        stopMusic_summary stopMusic_status stopMusic_persistentErrors stopMusic_isPlaying
        stopMusic_sequence stopMusic_transport stopMusic_refs
        socket_frame handlePlay_classified_frame handlePlay_idle)

theorem empty_stream_outcome_witness:
  "\<not> isPlaying initial_app
   \<and> summary (play_session toSeconds_120bpm example_classification [] initial_app) =
       Some \<lparr>title = ''Analysis Complete'',
             messages = [''No parsable musical elements were found in the code.'']\<rparr>
   \<and> persistentErrors (play_session toSeconds_120bpm example_classification [] initial_app) = []
   \<and> sequence (play_session toSeconds_120bpm example_classification [] initial_app) = None"
  using empty_stream_outcome [of initial_app toSeconds_120bpm example_classification]
  by (simp add: Let_def initial_app_def)

lemma finalize_after_close:
  assumes "\<not> isPlaying s" and "es \<noteq> []"
  shows "finalize (play_session T cl es s) =
           finalStop (collectedErrors (stream es (snd (handlePlay_classified cl (handlePlay s)))))
             \<lparr>title = (if length (errorMessages
                                 (stream es (snd (handlePlay_classified cl (handlePlay s))))) > 0
                        then ''Analysis Complete: Issues Found''
                        else ''Analysis Complete: Code is Clean!''),
              messages = errorMessages
                           (stream es (snd (handlePlay_classified cl (handlePlay s))))\<rparr>
             ((play_session T cl es s)
                \<lparr>timeouts := (timeouts (play_session T cl es s))
                    (timer_counter s + 1 := None)\<rparr>)"
proof -
  let ?c = "stream es (snd (handlePlay_classified cl (handlePlay s)))"
  let ?s1 = "socket_closed (socket_opened (fst (handlePlay_classified cl (handlePlay s))))"
  have ne: "musicalEvents ?c \<noteq> []"
    using assms(2) by (simp add: stream_fresh)
  have ps: "play_session T cl es s = ws_onclose T ?c ?s1"
    using assms(1) by (rule play_session_idle)
  have tc: "timer_counter ?s1 = timer_counter s"
    using assms(1) by (simp add: socket_frame handlePlay_classified_frame handlePlay_idle)
  show ?thesis
    unfolding finalize_def ps
    by (simp add: ws_onclose_nonempty [OF ne] fire_timeout_def tc)
qed

text \<open>
  Claim C10. A session that buffers at least one event, none of them an error, and whose
  finalize timer fires, surfaces the summary titled \<^verbatim>\<open>Analysis Complete: Code is Clean!\<close>
  with an empty list of messages, and commits the empty persistent error map.
\<close>

theorem clean_completion:
  assumes "\<not> isPlaying s" and "es \<noteq> []" and "\<forall>e \<in> set es. \<not> isError e"
  shows "let s' = finalize (play_session T cl es s)
         in summary s' =
              Some \<lparr>title = ''Analysis Complete: Code is Clean!'', messages = []\<rparr>
            \<and> persistentErrors s' = []
            \<and> status s' = ''Analysis Complete: Code is Clean!''
            \<and> \<not> isPlaying s'"
  by (simp add: Let_def finalize_after_close [OF assms(1,2)] stream_fresh_clean [OF assms(3)]
        finalStop_def stopMusic_summary stopMusic_status stopMusic_persistentErrors
        stopMusic_isPlaying)

theorem clean_completion_witness:
  "\<not> isPlaying initial_app \<and> [statement_event] \<noteq> []
   \<and> \<not> isError statement_event
   \<and> summary (finalize (play_session toSeconds_120bpm example_classification
         [statement_event] initial_app)) =
       Some \<lparr>title = ''Analysis Complete: Code is Clean!'', messages = []\<rparr>
   \<and> persistentErrors (finalize (play_session toSeconds_120bpm example_classification
         [statement_event] initial_app)) = []"
  using clean_completion [of initial_app "[statement_event]" toSeconds_120bpm example_classification]
  by (simp add: Let_def initial_app_def statement_event_def)

lemma compile_step_cong:
  assumes "T ''4n'' = T' ''4n''" and "T ''8n'' = T' ''8n''" and "T ''16n'' = T' ''16n''"
  shows "compile_step T sc st e = compile_step T' sc st e"
  using assms by (simp add: compile_step_def Let_def)

lemma compile_loop_cong:
  assumes "T ''4n'' = T' ''4n''" and "T ''8n'' = T' ''8n''" and "T ''16n'' = T' ''16n''"
  shows "compile_loop T sc es = compile_loop T' sc es"
  by (induction es rule: rev_induct)
     (simp_all add: compile_loop_def compile_step_cong [OF assms])

text \<open>
  Claim C9. The compile loop is a function of the event sequence, the scale and the
  seconds that the conversion gives for \<^verbatim>\<open>4n\<close>, \<^verbatim>\<open>8n\<close> and \<^verbatim>\<open>16n\<close>: two runs that agree
  on these produce the same final loop state, hence the same scheduled events, field by
  field and in the same order. The sequence that \<^verbatim>\<open>ws.onclose\<close> stores is the same
  whatever the state of the component in the two runs.
\<close>

theorem compile_deterministic:
  assumes "T ''4n'' = T' ''4n''" and "T ''8n'' = T' ''8n''" and "T ''16n'' = T' ''16n''"
  shows "compile_loop T sc es = compile_loop T' sc es
         \<and> (musicalEvents c \<noteq> [] \<longrightarrow>
              sequence (ws_onclose T c s) = sequence (ws_onclose T' c s'))"
  using compile_loop_cong [OF assms]
  by (simp add: ws_onclose_nonempty)

theorem compile_deterministic_witness:
  "toSeconds_120bpm ''4n'' = (\<lambda>d. if d = ''4n'' then 1 / 2 else if d = ''8n'' then 1 / 4 else 1 / 8) ''4n''
   \<and> toSeconds_120bpm ''8n'' = (\<lambda>d. if d = ''4n'' then 1 / 2 else if d = ''8n'' then 1 / 4 else 1 / 8) ''8n''
   \<and> toSeconds_120bpm ''16n'' = (\<lambda>d. if d = ''4n'' then 1 / 2 else if d = ''8n'' then 1 / 4 else 1 / 8) ''16n''
   \<and> musicalEvents \<lparr>palette = \<lparr>scale = [''C4'', ''D4''], synth_class = ''PolySynth''\<rparr>,
        musicalEvents = [statement_event, syntax_error_event],
        errorMessages = [], collectedErrors = []\<rparr> \<noteq> []
   \<and> compile_loop toSeconds_120bpm [''C4'', ''D4''] [statement_event, syntax_error_event]
       = compile_loop (\<lambda>d. if d = ''4n'' then 1 / 2 else if d = ''8n'' then 1 / 4 else 1 / 8)
           [''C4'', ''D4''] [statement_event, syntax_error_event]
   \<and> sequence (ws_onclose toSeconds_120bpm
         \<lparr>palette = \<lparr>scale = [''C4'', ''D4''], synth_class = ''PolySynth''\<rparr>,
          musicalEvents = [statement_event, syntax_error_event],
          errorMessages = [], collectedErrors = []\<rparr> initial_app)
     = sequence (ws_onclose (\<lambda>d. if d = ''4n'' then 1 / 2 else if d = ''8n'' then 1 / 4 else 1 / 8)
         \<lparr>palette = \<lparr>scale = [''C4'', ''D4''], synth_class = ''PolySynth''\<rparr>,
          musicalEvents = [statement_event, syntax_error_event],
          errorMessages = [], collectedErrors = []\<rparr> (handlePlay initial_app))"
proof -
  have h: "toSeconds_120bpm ''4n'' = (\<lambda>d. if d = ''4n'' then 1 / 2 else if d = ''8n'' then 1 / 4 else 1 / 8) ''4n''"
    "toSeconds_120bpm ''8n'' = (\<lambda>d. if d = ''4n'' then 1 / 2 else if d = ''8n'' then 1 / 4 else 1 / 8) ''8n''"
    "toSeconds_120bpm ''16n'' = (\<lambda>d. if d = ''4n'' then 1 / 2 else if d = ''8n'' then 1 / 4 else 1 / 8) ''16n''"
    by (simp_all add: toSeconds_120bpm_def)
  show ?thesis
    using h compile_deterministic [OF h, of "[''C4'', ''D4'']" "[statement_event, syntax_error_event]"
        "\<lparr>palette = \<lparr>scale = [''C4'', ''D4''], synth_class = ''PolySynth''\<rparr>,
          musicalEvents = [statement_event, syntax_error_event],
          errorMessages = [], collectedErrors = []\<rparr>" initial_app "handlePlay initial_app"]
    by simp
qed

lemma slice_neg_step:
  "slice_neg 30 (slice_neg 31 ys) @ [n] = slice_neg 31 (ys @ [n])"
proof -
  have "length ys - (length ys - 31 + 30) + (length ys - 31) = length ys - 30"
    by arith
  then show ?thesis
    by (simp add: slice_neg_def)
qed

lemma slice_neg_first:
  "slice_neg 30 ys @ [n] = slice_neg 31 (ys @ [n])"
  by (simp add: slice_neg_def)

lemma spawn_all_snoc:
  "spawn_all T (xs @ [x]) s =
     draw_callback T (fst x) (fst (snd x)) (snd (snd x)) (spawn_all T xs s)"
  by (simp add: spawn_all_def split: prod.splits)

lemma draw_callback_visualNodes:
  "visualNodes (draw_callback T i r e s) = slice_neg 30 (visualNodes s) @ [newNode T i r e]"
  by (simp add: draw_callback_def)

lemma visualNodes_spawn_all:
  "visualNodes (spawn_all T xs s) =
     (if xs = [] then visualNodes s
      else slice_neg 31 (visualNodes s @ map (\<lambda>(i, r, e). newNode T i r e) xs))"
proof (induction xs rule: rev_induct)
  case Nil
  show ?case by (simp add: spawn_all_def)
next
  case (snoc x xs)
  show ?case
  proof (cases "xs = []")
    case True
    then show ?thesis
      by (simp add: spawn_all_snoc draw_callback_visualNodes spawn_all_def slice_neg_first
            split: prod.splits)
  next
    case False
    then show ?thesis
      using snoc.IH
      by (simp add: spawn_all_snoc draw_callback_visualNodes slice_neg_step
            split: prod.splits)
  qed
qed

text \<open>
  Claim C5, as amended. Each draw callback keeps the last 30 nodes of the previous set
  and appends the new node. From the empty set that a play request leaves, after \<open>N\<close>
  spawns the set holds the most recent \<open>min N 31\<close> nodes, oldest evicted first; after
  more than 30 spawns it holds exactly the most recent 31.
\<close>

theorem bounded_node_pool:
  assumes "visualNodes s = []"
  shows "visualNodes (spawn_all T xs s) =
           drop (length xs - 31) (map (\<lambda>(i, r, e). newNode T i r e) xs)
         \<and> length (visualNodes (spawn_all T xs s)) = min (length xs) 31
         \<and> (30 < length xs \<longrightarrow> length (visualNodes (spawn_all T xs s)) = 31)"
  using assms by (auto simp: visualNodes_spawn_all slice_neg_def)

theorem bounded_node_pool_witness:
  "visualNodes (handlePlay initial_app) = []
   \<and> 30 < length (example_spawns 40)
   \<and> length (visualNodes (spawn_all toSeconds_120bpm (example_spawns 40) (handlePlay initial_app))) = 31"
proof -
  have e: "visualNodes (handlePlay initial_app) = []"
    by (simp add: handlePlay_def initial_app_def)
  have l: "30 < length (example_spawns 40)"
    by (simp add: example_spawns_def)
  from bounded_node_pool [OF e, of toSeconds_120bpm "example_spawns 40"] l e
  show ?thesis by simp
qed

text \<open>
  The bound of claim C5 as first stated (exactly 30 nodes remain) fails: after 31 spawns
  in one session the set holds 31 nodes, and the first node spawned is still in it.
\<close>

theorem bounded_node_pool_counterexample:
  "length (visualNodes (spawn_all toSeconds_120bpm (example_spawns 31) (handlePlay initial_app))) = 31
   \<and> node_id (hd (visualNodes
        (spawn_all toSeconds_120bpm (example_spawns 31) (handlePlay initial_app)))) = ''0''"
proof -
  have e: "visualNodes (handlePlay initial_app) = []"
    by (simp add: handlePlay_def initial_app_def)
  have n: "example_spawns 31 \<noteq> []" and l: "length (example_spawns 31) = 31"
    by (simp_all add: example_spawns_def)
  have "fst (hd (example_spawns 31)) = ''0''"
    by (simp add: example_spawns_def hd_map string_of_nat.simps)
  then have h: "node_id (hd (map (\<lambda>(i, r, e). newNode toSeconds_120bpm i r e)
                  (example_spawns 31))) = ''0''"
    using n by (auto simp: hd_map newNode_def split: prod.splits)
  show ?thesis
    using h by (simp add: visualNodes_spawn_all e n l slice_neg_def)
qed

lemma play_session_persistentErrors:
  "\<not> isPlaying s \<Longrightarrow> persistentErrors (play_session T cl es s) = []"
  by (cases "es = []")
     (simp_all add: play_session_idle ws_onclose_empty ws_onclose_nonempty stream_fresh
        stopMusic_persistentErrors socket_frame handlePlay_classified_frame handlePlay_idle)

lemma play_session_isPlaying:
  "\<not> isPlaying s \<Longrightarrow> es \<noteq> [] \<Longrightarrow> isPlaying (play_session T cl es s)"
  by (simp add: play_session_idle ws_onclose_nonempty stream_fresh
        socket_frame handlePlay_classified_frame handlePlay_idle)

lemma finalize_persistentErrors:
  "\<not> isPlaying s \<Longrightarrow> es \<noteq> [] \<Longrightarrow>
     persistentErrors (finalize (play_session T cl es s)) =
       collectedErrors (stream es (snd (handlePlay_classified cl (handlePlay s))))"
  by (simp add: finalize_after_close finalStop_def stopMusic_persistentErrors)

lemma finalize_isPlaying:
  "\<not> isPlaying s \<Longrightarrow> es \<noteq> [] \<Longrightarrow> \<not> isPlaying (finalize (play_session T cl es s))"
  by (simp add: finalize_after_close finalStop_def stopMusic_isPlaying)

lemma fire_timeout_persistentErrors:
  "timeouts s h = Some cb \<Longrightarrow> persistentErrors (fire_timeout h s) = cb_collectedErrors cb"
  by (simp add: fire_timeout_def finalStop_def stopMusic_persistentErrors)

lemma handleCodeChange_persistentErrors:
  "persistentErrors (handleCodeChange newCode s) = []"
  by (simp add: handleCodeChange_def Let_def)

lemma unmount_persistentErrors: "persistentErrors (unmount s) = persistentErrors s"
  by (simp add: unmount_def Let_def stopMusic_persistentErrors)

lemma draw_callback_persistentErrors:
  "persistentErrors (draw_callback T i r e s) = persistentErrors s"
  by (simp add: draw_callback_def)

lemma ws_onclose_persistentErrors:
  "persistentErrors (ws_onclose T c s) = persistentErrors s"
  by (cases "musicalEvents c = []")
     (simp_all add: ws_onclose_empty ws_onclose_nonempty stopMusic_persistentErrors)

text \<open>
  Claim C4, as amended. \<^verbatim>\<open>stopMusic\<close> leaves the persistent error map as it was
  immediately before the stop, and so does a play request while playing. The play request
  that starts a session replaces the map by the empty one, so a stop inside a session
  leaves it empty. Classification, the error and close handlers of the socket, the draw
  callback and the cleanup of the component leave it as it is. Only the finalize action
  writes a map: the draft collected while streaming. Editing the source text leaves the
  map empty.
\<close>

theorem persistent_map_writers:
  "persistentErrors (stopMusic f s) = persistentErrors s
   \<and> (isPlaying s \<longrightarrow> persistentErrors (handlePlay s) = persistentErrors s)
   \<and> (\<not> isPlaying s \<longrightarrow> persistentErrors (handlePlay s) = [])
   \<and> (\<not> isPlaying s \<longrightarrow> persistentErrors (play_session T cl es s) = []
        \<and> persistentErrors (stopMusic f (play_session T cl es s)) = []
        \<and> persistentErrors (handlePlay (play_session T cl es s)) = [])
   \<and> persistentErrors (fst (handlePlay_classified cl s)) = persistentErrors s
   \<and> persistentErrors (handlePlay_catch s) = persistentErrors s
   \<and> persistentErrors (ws_onerror s) = persistentErrors s
   \<and> persistentErrors (ws_onclose T c s) = persistentErrors s
   \<and> persistentErrors (draw_callback T i r e s) = persistentErrors s
   \<and> persistentErrors (unmount s) = persistentErrors s
   \<and> (\<forall>h cb. timeouts s h = Some cb \<longrightarrow>
         persistentErrors (fire_timeout h s) = cb_collectedErrors cb)
   \<and> (\<not> isPlaying s \<and> es \<noteq> [] \<longrightarrow>
         persistentErrors (finalize (play_session T cl es s)) =
           collectedErrors (stream es (snd (handlePlay_classified cl (handlePlay s)))))
   \<and> persistentErrors (handleCodeChange newCode s) = []"
proof -
  have "persistentErrors (handlePlay (play_session T cl es s)) = []" if "\<not> isPlaying s"
    using that play_session_persistentErrors [OF that, of T cl es]
    by (cases "isPlaying (play_session T cl es s)") (simp_all add: handlePlay_def)
  then show ?thesis
    by (simp add: stopMusic_persistentErrors handlePlay_def play_session_persistentErrors
          handlePlay_classified_frame handlePlay_catch_def ws_onerror_def
          ws_onclose_persistentErrors draw_callback_persistentErrors unmount_persistentErrors
          fire_timeout_persistentErrors finalize_persistentErrors
          handleCodeChange_persistentErrors)
qed

lemma stream_syntax_error:
  "collectedErrors (stream [syntax_error_event] (snd (handlePlay_classified cl s))) =
     [(7, ''syntax_error'')]"
  by (simp add: stream_def ws_onmessage_def Let_def syntax_error_event_def
        handlePlay_classified_def)

theorem persistent_map_writers_witness:
  "\<not> isPlaying initial_app \<and> [syntax_error_event] \<noteq> []
   \<and> isPlaying (play_session toSeconds_120bpm example_classification [syntax_error_event] initial_app)
   \<and> timeouts (play_session toSeconds_120bpm example_classification [syntax_error_event] initial_app) 1
       \<noteq> None
   \<and> persistentErrors (handlePlay
        (play_session toSeconds_120bpm example_classification [syntax_error_event] initial_app)) = []
   \<and> persistentErrors (finalize
        (play_session toSeconds_120bpm example_classification [syntax_error_event] initial_app))
       = [(7, ''syntax_error'')]"
proof -
  have i: "\<not> isPlaying initial_app"
    by (simp add: initial_app_def)
  have p: "isPlaying (play_session toSeconds_120bpm example_classification
             [syntax_error_event] initial_app)"
    using i by (simp add: play_session_isPlaying)
  have t: "timeouts (play_session toSeconds_120bpm example_classification
             [syntax_error_event] initial_app) 1 \<noteq> None"
    using i
    by (simp add: play_session_idle ws_onclose_nonempty stream_fresh socket_frame
          handlePlay_classified_frame handlePlay_idle)
       (simp add: initial_app_def)
  note w = persistent_map_writers [of None initial_app toSeconds_120bpm example_classification
      "[syntax_error_event]"]
  from w i have "persistentErrors (handlePlay
        (play_session toSeconds_120bpm example_classification [syntax_error_event] initial_app)) = []"
    by blast
  moreover from w i have "persistentErrors (finalize
        (play_session toSeconds_120bpm example_classification [syntax_error_event] initial_app))
       = collectedErrors (stream [syntax_error_event]
           (snd (handlePlay_classified example_classification (handlePlay initial_app))))"
    by blast
  ultimately show ?thesis
    using i p t by (simp add: stream_syntax_error)
qed

text \<open>
  Claim C4 as first stated (a stop leaves the map as it was before the session started)
  fails: a completed session commits the map \<open>7 \<mapsto> syntax_error\<close>; the next play request
  empties it, and after a stop in the middle of the playback of that session, by the
  button or by \<^verbatim>\<open>stopMusic\<close>, the map is empty.
\<close>

theorem stop_restores_prior_map_counterexample:
  "persistentErrors (finalize
      (play_session toSeconds_120bpm example_classification [syntax_error_event] initial_app))
     = [(7, ''syntax_error'')]
   \<and> isPlaying (play_session toSeconds_120bpm example_classification [statement_event]
        (finalize (play_session toSeconds_120bpm example_classification
           [syntax_error_event] initial_app)))
   \<and> persistentErrors (handlePlay
        (play_session toSeconds_120bpm example_classification [statement_event]
          (finalize (play_session toSeconds_120bpm example_classification
             [syntax_error_event] initial_app)))) = []
   \<and> persistentErrors (stopMusic None
        (play_session toSeconds_120bpm example_classification [statement_event]
          (finalize (play_session toSeconds_120bpm example_classification
             [syntax_error_event] initial_app)))) = []"
proof -
  let ?prev = "finalize (play_session toSeconds_120bpm example_classification
                 [syntax_error_event] initial_app)"
  let ?mid = "play_session toSeconds_120bpm example_classification [statement_event] ?prev"
  have i: "\<not> isPlaying initial_app"
    by (simp add: initial_app_def)
  have a: "persistentErrors ?prev = [(7, ''syntax_error'')]"
    using i by (simp add: finalize_persistentErrors stream_syntax_error)
  have b: "\<not> isPlaying ?prev"
    using i by (simp add: finalize_isPlaying)
  have c: "isPlaying ?mid"
    using b by (simp add: play_session_isPlaying)
  have d: "persistentErrors ?mid = []"
    using b by (rule play_session_persistentErrors)
  have e: "persistentErrors (handlePlay ?mid) = []"
    using c d by (simp add: handlePlay_playing)
  have f: "persistentErrors (stopMusic None ?mid) = []"
    using d by (simp add: stopMusic_persistentErrors)
  from a c e f show ?thesis by blast
qed

lemma stopMusic_cancels_timer:
  "stopTimeoutRef s = Some h \<Longrightarrow> h \<noteq> 0 \<Longrightarrow> timeouts (stopMusic f s) h = None"
  by (simp add: stopMusic_timeouts)

text \<open>
  Claim C6, as amended. \<^verbatim>\<open>stopMusic\<close> cancels the finalize timer held in
  \<^verbatim>\<open>stopTimeoutRef\<close>, stops and clears the transport, disposes the sequence, closes the
  channel if it is open and ends the playing state; it leaves the synth as it is (the
  synth is disposed when the next session replaces it). A play request while playing
  closes the channel and changes nothing else: it starts no session.
\<close>

theorem stopMusic_teardown:
  "(\<forall>h. stopTimeoutRef s = Some h \<and> h \<noteq> 0 \<longrightarrow> timeouts (stopMusic f s) h = None)
   \<and> transport (stopMusic f s) = \<lparr>started = False, timeline = []\<rparr>
   \<and> sequence (stopMusic f s) = map_option (\<lambda>q. q\<lparr>seq_disposed := True\<rparr>) (sequence s)
   \<and> synth (stopMusic f s) = synth s
   \<and> ws (stopMusic f s) = (if ws s = Some OPEN then Some CLOSING else ws s)
   \<and> \<not> isPlaying (stopMusic f s)
   \<and> (isPlaying s \<longrightarrow> handlePlay s = s\<lparr>ws := map_option ws_close (ws s)\<rparr>)"
  by (simp add: stopMusic_cancels_timer stopMusic_transport stopMusic_sequence stopMusic_synth
        stopMusic_ws stopMusic_isPlaying handlePlay_playing)

lemma mid_playback:
  "isPlaying (play_session toSeconds_120bpm example_classification [statement_event] initial_app)"
  "stopTimeoutRef (play_session toSeconds_120bpm example_classification [statement_event] initial_app)
     = Some 1"
  "timeouts (play_session toSeconds_120bpm example_classification [statement_event] initial_app) 1
     \<noteq> None"
  "started (transport
     (play_session toSeconds_120bpm example_classification [statement_event] initial_app))"
  "ws (play_session toSeconds_120bpm example_classification [statement_event] initial_app)
     = Some CLOSED"
  "synth (play_session toSeconds_120bpm example_classification [statement_event] initial_app)
     = Some \<lparr>synth_kind = ''MembraneSynth'', synth_disposed = False\<rparr>"
proof -
  have i: "\<not> isPlaying initial_app"
    by (simp add: initial_app_def)
  have tc: "timer_counter (handlePlay initial_app) = 0"
    by (simp add: initial_app_def handlePlay_def)
  have w: "ws (socket_closed (socket_opened
             (fst (handlePlay_classified example_classification (handlePlay initial_app)))))
           = Some CLOSED"
    by (simp add: socket_closed_def socket_opened_def handlePlay_classified_frame)
  have sy: "synth (socket_closed (socket_opened
             (fst (handlePlay_classified example_classification (handlePlay initial_app)))))
           = Some \<lparr>synth_kind = ''MembraneSynth'', synth_disposed = False\<rparr>"
    by (simp add: socket_closed_def socket_opened_def handlePlay_classified_def Let_def
          example_classification_def musicPalettes_def)
  show "isPlaying (play_session toSeconds_120bpm example_classification [statement_event] initial_app)"
    using i by (simp add: play_session_isPlaying)
  show "stopTimeoutRef (play_session toSeconds_120bpm example_classification [statement_event] initial_app)
     = Some 1"
    using i tc
    by (simp add: play_session_idle ws_onclose_nonempty stream_fresh socket_frame
          handlePlay_classified_frame)
  show "timeouts (play_session toSeconds_120bpm example_classification [statement_event] initial_app) 1
     \<noteq> None"
    using i tc
    by (simp add: play_session_idle ws_onclose_nonempty stream_fresh socket_frame
          handlePlay_classified_frame)
  show "started (transport
     (play_session toSeconds_120bpm example_classification [statement_event] initial_app))"
    using i
    by (simp add: play_session_idle ws_onclose_nonempty stream_fresh)
  show "ws (play_session toSeconds_120bpm example_classification [statement_event] initial_app)
     = Some CLOSED"
    using i w
    by (simp add: play_session_idle ws_onclose_nonempty stream_fresh)
  show "synth (play_session toSeconds_120bpm example_classification [statement_event] initial_app)
     = Some \<lparr>synth_kind = ''MembraneSynth'', synth_disposed = False\<rparr>"
    using i sy
    by (simp add: play_session_idle ws_onclose_nonempty stream_fresh)
qed

theorem stopMusic_teardown_witness:
  "stopTimeoutRef (play_session toSeconds_120bpm example_classification [statement_event] initial_app)
     = Some 1 \<and> (1::nat) \<noteq> 0
   \<and> isPlaying (play_session toSeconds_120bpm example_classification [statement_event] initial_app)
   \<and> timeouts (play_session toSeconds_120bpm example_classification [statement_event] initial_app) 1
       \<noteq> None
   \<and> timeouts (stopMusic None
        (play_session toSeconds_120bpm example_classification [statement_event] initial_app)) 1
       = None
   \<and> transport (stopMusic None
        (play_session toSeconds_120bpm example_classification [statement_event] initial_app))
       = \<lparr>started = False, timeline = []\<rparr>
   \<and> ws (handlePlay
        (play_session toSeconds_120bpm example_classification [statement_event] initial_app))
       = Some CLOSED"
proof -
  let ?mid = "play_session toSeconds_120bpm example_classification [statement_event] initial_app"
  note t = stopMusic_teardown [of ?mid None]
  from t mid_playback(2) have "timeouts (stopMusic None ?mid) 1 = None"
    by simp
  moreover from t have "transport (stopMusic None ?mid) = \<lparr>started = False, timeline = []\<rparr>"
    by blast
  moreover from t mid_playback(1) have "handlePlay ?mid = ?mid\<lparr>ws := map_option ws_close (ws ?mid)\<rparr>"
    by blast
  then have "ws (handlePlay ?mid) = Some CLOSED"
    using mid_playback(5) by simp
  ultimately show ?thesis
    using mid_playback by simp
qed

text \<open>
  Claim C6 as first stated fails in the middle of a playback: after the play request
  while playing, the finalize timer is still pending, the transport is still started and
  the component still plays; and after \<^verbatim>\<open>stopMusic\<close> the synth is not disposed.
\<close>

theorem user_stop_teardown_counterexample:
  "isPlaying (play_session toSeconds_120bpm example_classification [statement_event] initial_app)
   \<and> stopTimeoutRef (handlePlay
        (play_session toSeconds_120bpm example_classification [statement_event] initial_app))
       = Some 1
   \<and> timeouts (handlePlay
        (play_session toSeconds_120bpm example_classification [statement_event] initial_app)) 1
       \<noteq> None
   \<and> started (transport (handlePlay
        (play_session toSeconds_120bpm example_classification [statement_event] initial_app)))
   \<and> isPlaying (handlePlay
        (play_session toSeconds_120bpm example_classification [statement_event] initial_app))
   \<and> synth (stopMusic None
        (play_session toSeconds_120bpm example_classification [statement_event] initial_app))
       = Some \<lparr>synth_kind = ''MembraneSynth'', synth_disposed = False\<rparr>"
  using mid_playback
  by (simp add: handlePlay_playing stopMusic_synth)

lemma close_after_error_empty:
  "musicalEvents c = [] \<Longrightarrow>
     summary (ws_onclose T c (socket_closed (ws_onerror s))) =
       Some \<lparr>title = ''Analysis Complete'',
             messages = [''No parsable musical elements were found in the code.'']\<rparr>
     \<and> status (ws_onclose T c (socket_closed (ws_onerror s))) = ''Analysis Complete''"
  by (simp add: ws_onclose_empty stopMusic_summary stopMusic_status)

lemma close_after_error_nonempty:
  assumes "musicalEvents c \<noteq> []"
  shows "sequence (ws_onclose T c (socket_closed (ws_onerror s))) =
           Some \<lparr>seq_events = scheduledEvents
                    (compile_loop T (scale (palette c)) (musicalEvents c)),
                 seq_loop = False, seq_disposed = False\<rparr>"
    and "started (transport (ws_onclose T c (socket_closed (ws_onerror s))))"
    and "stopTimeoutRef (ws_onclose T c (socket_closed (ws_onerror s))) =
           Some (timer_counter s + 1)"
    and "timeouts (ws_onclose T c (socket_closed (ws_onerror s))) (timer_counter s + 1) =
           Some \<lparr>cb_collectedErrors = collectedErrors c,
                 cb_finalSummary =
                   \<lparr>title = (if length (errorMessages c) > 0
                              then ''Analysis Complete: Issues Found''
                              else ''Analysis Complete: Code is Clean!''),
                    messages = errorMessages c\<rparr>,
                 delay_ms = (cumulativeTime
                      (compile_loop T (scale (palette c)) (musicalEvents c)) + 2) * 1000\<rparr>"
    and "summary (finalize (ws_onclose T c (socket_closed (ws_onerror s)))) =
           Some \<lparr>title = (if length (errorMessages c) > 0
                            then ''Analysis Complete: Issues Found''
                            else ''Analysis Complete: Code is Clean!''),
                 messages = errorMessages c\<rparr>"
    and "persistentErrors (finalize (ws_onclose T c (socket_closed (ws_onerror s)))) =
           collectedErrors c"
  by (simp_all add: ws_onclose_nonempty [OF assms] socket_frame ws_onerror_def stopMusic_refs
        finalize_def fire_timeout_def finalStop_def stopMusic_summary
        stopMusic_persistentErrors)


text \<open>
  Claim C8, evaluated on the code from the initial state of the component. A failed
  classification ends in the summary titled \<^verbatim>\<open>Connection Error\<close> with no socket in
  existence, so nothing can follow it. A stream error does not end there: \<^verbatim>\<open>ws.onerror\<close>
  surfaces the summary with that title and leaves \<^verbatim>\<open>ws.onclose\<close> attached. When the
  close event follows the error with nothing buffered, the summary is replaced by the
  one titled \<^verbatim>\<open>Analysis Complete\<close>; with one event buffered, the compile loop runs on
  it, the sequence is stored, the transport is started, and the finalize timer later
  replaces the summary by the one titled \<^verbatim>\<open>Analysis Complete: Code is Clean!\<close>.
\<close>

theorem stream_error_then_close:
  "summary (handlePlay_catch (handlePlay initial_app))
     = Some \<lparr>title = ''Connection Error'',
             messages = [''Could not connect to the backend service.'']\<rparr>
   \<and> ws (handlePlay_catch (handlePlay initial_app)) = None
   \<and> summary (ws_onerror (socket_opened
        (fst (handlePlay_classified example_classification (handlePlay initial_app)))))
     = Some \<lparr>title = ''Connection Error'',
             messages = [''Failed to connect to the visualizer service.'']\<rparr>
   \<and> summary (ws_onclose toSeconds_120bpm
        (stream [] (snd (handlePlay_classified example_classification (handlePlay initial_app))))
        (socket_closed (ws_onerror (socket_opened
          (fst (handlePlay_classified example_classification (handlePlay initial_app)))))))
     = Some \<lparr>title = ''Analysis Complete'',
             messages = [''No parsable musical elements were found in the code.'']\<rparr>
   \<and> sequence (ws_onclose toSeconds_120bpm
        (stream [statement_event]
          (snd (handlePlay_classified example_classification (handlePlay initial_app))))
        (socket_closed (ws_onerror (socket_opened
          (fst (handlePlay_classified example_classification (handlePlay initial_app)))))))
     = Some \<lparr>seq_events = scheduledEvents (compile_loop toSeconds_120bpm
                [''D3'', ''F3'', ''A3'', ''C4'', ''E4'', ''F4'', ''A4'', ''C5''] [statement_event]),
             seq_loop = False, seq_disposed = False\<rparr>
   \<and> length (scheduledEvents (compile_loop toSeconds_120bpm
        [''D3'', ''F3'', ''A3'', ''C4'', ''E4'', ''F4'', ''A4'', ''C5''] [statement_event])) = 1
   \<and> started (transport (ws_onclose toSeconds_120bpm
        (stream [statement_event]
          (snd (handlePlay_classified example_classification (handlePlay initial_app))))
        (socket_closed (ws_onerror (socket_opened
          (fst (handlePlay_classified example_classification (handlePlay initial_app))))))))
   \<and> summary (finalize (ws_onclose toSeconds_120bpm
        (stream [statement_event]
          (snd (handlePlay_classified example_classification (handlePlay initial_app))))
        (socket_closed (ws_onerror (socket_opened
          (fst (handlePlay_classified example_classification (handlePlay initial_app))))))))
     = Some \<lparr>title = ''Analysis Complete: Code is Clean!'', messages = []\<rparr>"
proof -
  let ?init = "snd (handlePlay_classified example_classification (handlePlay initial_app))"
  let ?c = "stream [statement_event] ?init"
  have e: "musicalEvents (stream [] ?init) = []"
    by (simp add: stream_fresh)
  have ne: "musicalEvents ?c \<noteq> []"
    by (simp add: stream_fresh)
  have sc: "scale (palette ?c) = [''D3'', ''F3'', ''A3'', ''C4'', ''E4'', ''F4'', ''A4'', ''C5'']"
    by (simp add: stream_palette handlePlay_classified_def Let_def example_classification_def
          musicPalettes_def)
  have cl: "errorMessages ?c = []"
    using stream_fresh_clean(1) [of "[statement_event]" example_classification
        "handlePlay initial_app"]
    by (simp add: statement_event_def)
  have len: "length (scheduledEvents (compile_loop toSeconds_120bpm
                [''D3'', ''F3'', ''A3'', ''C4'', ''E4'', ''F4'', ''A4'', ''C5''] [statement_event])) = 1"
    by (simp add: length_compile_loop)
  have w: "ws (handlePlay_catch (handlePlay initial_app)) = None"
    by (simp add: handlePlay_catch_def stopMusic_ws handlePlay_def initial_app_def)
  show ?thesis
    using close_after_error_empty [OF e] close_after_error_nonempty [OF ne]
    by (simp add: handlePlay_catch_def ws_onerror_def stopMusic_summary sc stream_fresh len cl
          w [unfolded handlePlay_catch_def])
qed

end
